theory Spec2Isabelle
  imports Complex_Main
begin

section \<open>Data model (types.ts)\<close>

text \<open>
  A JavaScript \<open>number\<close> that holds a coordinate, a speed or a length is modelled as a
  \<open>real\<close>: the arithmetic is the exact one, without rounding, overflow or NaN. The
  counters \<open>kickCooldown\<close>, \<open>countdown\<close> and the two scores only ever hold integers
  and are modelled as \<open>int\<close>. The 100 ms timers that reset \<open>isKicking\<close> run outside
  the functions modelled here and are not part of the model.

  Three names of the source are taken already: a player's \<open>id\<close> is \<open>player_id\<close>, the
  \<open>kick\<close> key of the input is \<open>kick_key\<close> (\<open>kick\<close> is the method of \<open>Physics\<close>), and
  \<open>Physics.normalize\<close> is \<open>normalize_vec\<close>. \<open>position\<close> and \<open>velocity\<close> are fields of
  both the player and the ball and are written with the record's name in front.
\<close>

record Vector2 =
  x :: real
  y :: real

datatype Team = Red | Blue

record Player =
  player_id :: string
  position :: Vector2
  velocity :: Vector2
  team :: Team
  name :: string
  isKicking :: bool
  kickCooldown :: int

record Ball =
  position :: Vector2
  velocity :: Vector2
  radius :: real

record InputState =
  up :: bool
  down :: bool
  left :: bool
  right :: bool
  kick_key :: bool

record GameConfig =
  fieldWidth :: real
  fieldHeight :: real
  playerRadius :: real
  ballRadius :: real
  playerSpeed :: real
  kickForce :: real
  friction :: real
  goalWidth :: real

section \<open>Physics (physics.ts)\<close>

subsection \<open>Vector operations\<close>

definition add :: "Vector2 \<Rightarrow> Vector2 \<Rightarrow> Vector2" where
  "add a b = \<lparr>x = x a + x b, y = y a + y b\<rparr>"

definition subtract :: "Vector2 \<Rightarrow> Vector2 \<Rightarrow> Vector2" where
  "subtract a b = \<lparr>x = x a - x b, y = y a - y b\<rparr>"

definition multiply :: "Vector2 \<Rightarrow> real \<Rightarrow> Vector2" where
  "multiply v scalar = \<lparr>x = x v * scalar, y = y v * scalar\<rparr>"

definition magnitude :: "Vector2 \<Rightarrow> real" where
  "magnitude v = sqrt (x v * x v + y v * y v)"

definition normalize_vec :: "Vector2 \<Rightarrow> Vector2" where
  "normalize_vec v =
     (let mag = magnitude v
      in if mag = 0 then \<lparr>x = 0, y = 0\<rparr> else \<lparr>x = x v / mag, y = y v / mag\<rparr>)"

definition distance :: "Vector2 \<Rightarrow> Vector2 \<Rightarrow> real" where
  "distance a b = magnitude (subtract a b)"

definition dot :: "Vector2 \<Rightarrow> Vector2 \<Rightarrow> real" where
  "dot a b = x a * x b + y a * y b"

subsection \<open>updatePlayer\<close>

text \<open>The acceleration built from the four direction keys, before it is normalized.\<close>

definition acceleration :: "InputState \<Rightarrow> Vector2" where
  "acceleration inp =
     \<lparr>x = (0 - (if left inp then 1 else 0)) + (if right inp then 1 else 0),
      y = (0 - (if up inp then 1 else 0)) + (if down inp then 1 else 0)\<rparr>"

definition updatePlayer :: "GameConfig \<Rightarrow> Player \<Rightarrow> InputState \<Rightarrow> Player" where
  "updatePlayer c player inp =
     (let normalized = normalize_vec (acceleration inp);
          v1 = \<lparr>x = x (Player.velocity player) + x normalized * playerSpeed c * 0.5,
                y = y (Player.velocity player) + y normalized * playerSpeed c * 0.5\<rparr>;
          speed = magnitude v1;
          v2 = (if speed > playerSpeed c then multiply (normalize_vec v1) (playerSpeed c) else v1);
          v3 = \<lparr>x = x v2 * friction c, y = y v2 * friction c\<rparr>;
          p1 = \<lparr>x = x (Player.position player) + x v3, y = y (Player.position player) + y v3\<rparr>;
          margin = playerRadius c;
          p2 = \<lparr>x = max margin (min (fieldWidth c - margin) (x p1)),
                y = max margin (min (fieldHeight c - margin) (y p1))\<rparr>
      in player\<lparr>Player.velocity := v3, Player.position := p2,
                kickCooldown := (if kickCooldown player > 0 then kickCooldown player - 1
                                 else kickCooldown player)\<rparr>)"

subsection \<open>updateBall\<close>

definition goalTop :: "GameConfig \<Rightarrow> real" where
  "goalTop c = (fieldHeight c - goalWidth c) / 2"

definition goalBottom :: "GameConfig \<Rightarrow> real" where
  "goalBottom c = (fieldHeight c + goalWidth c) / 2"

text \<open>The four wall tests of \<open>updateBall\<close>, in the order of the source; each reads the
  ball as the previous one left it.\<close>

definition leftWall :: "GameConfig \<Rightarrow> Ball \<Rightarrow> Ball" where
  "leftWall c ball =
     (if x (Ball.position ball) - radius ball < 0 then
        (if y (Ball.position ball) > goalTop c \<and> y (Ball.position ball) < goalBottom c
         then ball
         else ball\<lparr>Ball.position := (Ball.position ball)\<lparr>x := radius ball\<rparr>,
                   Ball.velocity := (Ball.velocity ball)\<lparr>x := x (Ball.velocity ball) * (- 0.8)\<rparr>\<rparr>)
      else ball)"

definition rightWall :: "GameConfig \<Rightarrow> Ball \<Rightarrow> Ball" where
  "rightWall c ball =
     (if x (Ball.position ball) + radius ball > fieldWidth c then
        (if y (Ball.position ball) > goalTop c \<and> y (Ball.position ball) < goalBottom c
         then ball
         else ball\<lparr>Ball.position := (Ball.position ball)\<lparr>x := fieldWidth c - radius ball\<rparr>,
                   Ball.velocity := (Ball.velocity ball)\<lparr>x := x (Ball.velocity ball) * (- 0.8)\<rparr>\<rparr>)
      else ball)"

definition topWall :: "GameConfig \<Rightarrow> Ball \<Rightarrow> Ball" where
  "topWall c ball =
     (if y (Ball.position ball) - radius ball < 0
      then ball\<lparr>Ball.position := (Ball.position ball)\<lparr>y := radius ball\<rparr>,
                Ball.velocity := (Ball.velocity ball)\<lparr>y := y (Ball.velocity ball) * (- 0.8)\<rparr>\<rparr>
      else ball)"

definition bottomWall :: "GameConfig \<Rightarrow> Ball \<Rightarrow> Ball" where
  "bottomWall c ball =
     (if y (Ball.position ball) + radius ball > fieldHeight c
      then ball\<lparr>Ball.position := (Ball.position ball)\<lparr>y := fieldHeight c - radius ball\<rparr>,
                Ball.velocity := (Ball.velocity ball)\<lparr>y := y (Ball.velocity ball) * (- 0.8)\<rparr>\<rparr>
      else ball)"

text \<open>The first half of \<open>updateBall\<close>: integrate the position, apply the friction
  factor 0.985, and stop a ball slower than 0.1.\<close>

definition integrateBall :: "Ball \<Rightarrow> Ball" where
  "integrateBall ball =
     (let p1 = \<lparr>x = x (Ball.position ball) + x (Ball.velocity ball),
                y = y (Ball.position ball) + y (Ball.velocity ball)\<rparr>;
          v1 = \<lparr>x = x (Ball.velocity ball) * 0.985, y = y (Ball.velocity ball) * 0.985\<rparr>;
          v2 = (if magnitude v1 < 0.1 then \<lparr>x = 0, y = 0\<rparr> else v1)
      in ball\<lparr>Ball.position := p1, Ball.velocity := v2\<rparr>)"

definition updateBall :: "GameConfig \<Rightarrow> Ball \<Rightarrow> Ball" where
  "updateBall c ball = bottomWall c (topWall c (rightWall c (leftWall c (integrateBall ball))))"

subsection \<open>checkGoal\<close>

text \<open>The source returns \<open>'red'\<close>, \<open>'blue'\<close> or \<open>null\<close> and assigns nothing: the
  model is a function of the ball alone.\<close>

definition checkGoal :: "GameConfig \<Rightarrow> Ball \<Rightarrow> Team option" where
  "checkGoal c ball =
     (if x (Ball.position ball) - radius ball < 0 \<and>
         y (Ball.position ball) > goalTop c \<and>
         y (Ball.position ball) < goalBottom c
      then Some Blue
      else if x (Ball.position ball) + radius ball > fieldWidth c \<and>
              y (Ball.position ball) > goalTop c \<and>
              y (Ball.position ball) < goalBottom c
      then Some Red
      else None)"

subsection \<open>handlePlayerBallCollision\<close>

text \<open>The player is only read; the result is the returned flag and the ball.\<close>

definition handlePlayerBallCollision :: "GameConfig \<Rightarrow> Player \<Rightarrow> Ball \<Rightarrow> bool \<times> Ball" where
  "handlePlayerBallCollision c player ball =
     (let dist = distance (Player.position player) (Ball.position ball);
          minDist = playerRadius c + radius ball
      in if dist < minDist then
           (let normal = normalize_vec (subtract (Ball.position ball) (Player.position player));
                overlap = minDist - dist;
                p1 = \<lparr>x = x (Ball.position ball) + x normal * (overlap + 1),
                      y = y (Ball.position ball) + y normal * (overlap + 1)\<rparr>;
                speed = magnitude (Player.velocity player);
                pushStrength = 0.4;
                v1 = (if speed > 0.3
                      then \<lparr>x = x (Ball.velocity ball) * 0.7 + x (Player.velocity player) * pushStrength,
                            y = y (Ball.velocity ball) * 0.7 + y (Player.velocity player) * pushStrength\<rparr>
                      else \<lparr>x = x (Ball.velocity ball) + x normal * 0.5,
                            y = y (Ball.velocity ball) + y normal * 0.5\<rparr>)
            in (True, ball\<lparr>Ball.position := p1, Ball.velocity := v1\<rparr>))
         else (False, ball))"

subsection \<open>kick and kickWithExtendedRange\<close>

text \<open>Both return the flag together with the player and the ball as the call leaves
  them.\<close>

definition kick :: "GameConfig \<Rightarrow> Player \<Rightarrow> Ball \<Rightarrow> bool \<times> Player \<times> Ball" where
  "kick c player ball =
     (if kickCooldown player > 0 then (False, player, ball)
      else
        (let dist = distance (Player.position player) (Ball.position ball);
             kickRange = playerRadius c + radius ball + 25
         in if dist < kickRange then
              (let direction = normalize_vec (subtract (Ball.position ball) (Player.position player));
                   v1 = \<lparr>x = x (Ball.velocity ball) + x direction * kickForce c,
                         y = y (Ball.velocity ball) + y direction * kickForce c\<rparr>
               in (True, player\<lparr>kickCooldown := 20, isKicking := True\<rparr>,
                   ball\<lparr>Ball.velocity := v1\<rparr>))
            else (False, player, ball)))"

definition kickWithExtendedRange :: "GameConfig \<Rightarrow> Player \<Rightarrow> Ball \<Rightarrow> bool \<times> Player \<times> Ball" where
  "kickWithExtendedRange c player ball =
     (let dist = distance (Player.position player) (Ball.position ball);
          kickRange = playerRadius c + radius ball + 60
      in if dist < kickRange then
           (let direction = normalize_vec (subtract (Ball.position ball) (Player.position player));
                v1 = \<lparr>x = x (Ball.velocity ball) + x direction * kickForce c,
                      y = y (Ball.velocity ball) + y direction * kickForce c\<rparr>
            in (True, player\<lparr>kickCooldown := 20\<rparr>, ball\<lparr>Ball.velocity := v1\<rparr>))
         else (False, player, ball))"

subsection \<open>handlePlayerCollision\<close>

definition handlePlayerCollision :: "GameConfig \<Rightarrow> Player \<Rightarrow> Player \<Rightarrow> Player \<times> Player" where
  "handlePlayerCollision c p1 p2 =
     (let dist = distance (Player.position p1) (Player.position p2);
          minDist = playerRadius c * 2
      in if dist < minDist \<and> dist > 0 then
           (let normal = normalize_vec (subtract (Player.position p2) (Player.position p1));
                overlap = minDist - dist;
                pos1 = \<lparr>x = x (Player.position p1) - x normal * overlap * 0.5,
                        y = y (Player.position p1) - y normal * overlap * 0.5\<rparr>;
                pos2 = \<lparr>x = x (Player.position p2) + x normal * overlap * 0.5,
                        y = y (Player.position p2) + y normal * overlap * 0.5\<rparr>;
                relativeVelocity = subtract (Player.velocity p1) (Player.velocity p2);
                velocityAlongNormal = dot relativeVelocity normal
            in if velocityAlongNormal > 0 then
                 (p1\<lparr>Player.position := pos1,
                      Player.velocity :=
                        \<lparr>x = x (Player.velocity p1) - velocityAlongNormal * x normal * 0.5,
                         y = y (Player.velocity p1) - velocityAlongNormal * y normal * 0.5\<rparr>\<rparr>,
                  p2\<lparr>Player.position := pos2,
                      Player.velocity :=
                        \<lparr>x = x (Player.velocity p2) + velocityAlongNormal * x normal * 0.5,
                         y = y (Player.velocity p2) + velocityAlongNormal * y normal * 0.5\<rparr>\<rparr>)
               else (p1\<lparr>Player.position := pos1\<rparr>, p2\<lparr>Player.position := pos2\<rparr>))
         else (p1, p2))"

section \<open>Session controller (game.ts)\<close>

record Score =
  red :: int
  blue :: int

text \<open>\<open>players\<close> is a JavaScript \<open>Map\<close>: its entries are kept in insertion order, one
  per key, and \<open>forEach\<close> and \<open>values()\<close> visit them in that order.\<close>

record GameState =
  players :: "(string \<times> Player) list"
  ball :: Ball
  score :: Score
  isPlaying :: bool
  countdown :: int

datatype Phase = Menu | Lobby | Playing

text \<open>The \<open>data\<close> of a \<open>player-update\<close> message, as \<open>sendPlayerUpdate\<close> builds it.\<close>

record PlayerUpdateData =
  upd_id :: string
  upd_position :: Vector2
  upd_velocity :: Vector2
  upd_team :: Team
  upd_name :: string
  upd_isKicking :: bool

text \<open>A message, by its \<open>type\<close> tag and its \<open>data\<close>; the \<open>timestamp\<close> is
  \<open>Date.now()\<close> and no handler reads it.\<close>

datatype NetworkMessage =
    PlayerUpdateMsg PlayerUpdateData
  | BallUpdateMsg Ball
  | ScoreUpdateMsg Score
  | PlayerJoinMsg Player
  | PlayerLeaveMsg string
  | GameStateMsg GameState
  | KickMsg string

text \<open>The fields of \<open>Game\<close> that the simulation reads and writes; \<open>isHosting\<close> is
  \<open>this.network.isHosting\<close>.\<close>

record Game =
  state :: GameState
  input :: InputState
  localPlayerId :: string
  isHosting :: bool
  gamePhase :: Phase

definition config :: GameConfig where
  "config = \<lparr>fieldWidth = 1000, fieldHeight = 600, playerRadius = 25, ballRadius = 15,
             playerSpeed = 5, kickForce = 15, friction = 0.95, goalWidth = 150\<rparr>"

definition createBall :: Ball where
  "createBall = \<lparr>Ball.position = \<lparr>x = fieldWidth config / 2, y = fieldHeight config / 2\<rparr>,
                 velocity = \<lparr>x = 0, y = 0\<rparr>,
                 radius = ballRadius config\<rparr>"

text \<open>\<open>Map.get\<close> and \<open>Map.set\<close>; \<open>set\<close> on a key that is present keeps the entry's
  place, which is also what assigning to the fields of the object that \<open>get\<close> returned
  does.\<close>

fun players_get :: "(string \<times> Player) list \<Rightarrow> string \<Rightarrow> Player option" where
  "players_get [] k = None"
| "players_get ((k', p) # rest) k = (if k' = k then Some p else players_get rest k)"

fun players_set :: "(string \<times> Player) list \<Rightarrow> string \<Rightarrow> Player \<Rightarrow> (string \<times> Player) list" where
  "players_set [] k v = [(k, v)]"
| "players_set ((k', p) # rest) k v =
     (if k' = k then (k, v) # rest else (k', p) # players_set rest k v)"

subsection \<open>resetPositions\<close>

definition slot_y :: "nat \<Rightarrow> real" where
  "slot_y idx =
     fieldHeight config / 2
       + (if idx < 2 then - 60 else 60) * (if idx mod 2 = 0 then 1 else - 1)
       + (real (idx div 2) * 100 - 50)"

fun resetPlayers :: "nat \<Rightarrow> nat \<Rightarrow> (string \<times> Player) list \<Rightarrow> (string \<times> Player) list" where
  "resetPlayers redIndex blueIndex [] = []"
| "resetPlayers redIndex blueIndex ((k, player) # rest) =
     (if team player = Red then
        (k, player\<lparr>Player.position := \<lparr>x = 150 + real (redIndex mod 2) * 80, y = slot_y redIndex\<rparr>,
                   Player.velocity := \<lparr>x = 0, y = 0\<rparr>\<rparr>)
          # resetPlayers (redIndex + 1) blueIndex rest
      else
        (k, player\<lparr>Player.position :=
                     \<lparr>x = fieldWidth config - 150 - real (blueIndex mod 2) * 80, y = slot_y blueIndex\<rparr>,
                   Player.velocity := \<lparr>x = 0, y = 0\<rparr>\<rparr>)
          # resetPlayers redIndex (blueIndex + 1) rest)"

definition resetPositions :: "GameState \<Rightarrow> GameState" where
  "resetPositions s = s\<lparr>ball := createBall, players := resetPlayers 0 0 (players s)\<rparr>"

subsection \<open>Inbound messages\<close>

definition handlePlayerUpdate :: "Game \<Rightarrow> PlayerUpdateData \<Rightarrow> Game" where
  "handlePlayerUpdate g data =
     (case players_get (players (state g)) (upd_id data) of
        None \<Rightarrow> g
      | Some player \<Rightarrow>
          if upd_id data \<noteq> localPlayerId g then
            g\<lparr>state := (state g)\<lparr>players :=
                 players_set (players (state g)) (upd_id data)
                   (player\<lparr>Player.position := upd_position data,
                           Player.velocity := upd_velocity data,
                           team := upd_team data,
                           isKicking := upd_isKicking data\<rparr>)\<rparr>\<rparr>
          else g)"

definition handleRemoteKick :: "Game \<Rightarrow> string \<Rightarrow> Game" where
  "handleRemoteKick g playerId =
     (case players_get (players (state g)) playerId of
        None \<Rightarrow> g
      | Some player \<Rightarrow>
          (let p1 = player\<lparr>isKicking := True\<rparr>
           in if isHosting g then
                (case kickWithExtendedRange config p1 (ball (state g)) of
                   (ok, p2, b2) \<Rightarrow>
                     g\<lparr>state := (state g)\<lparr>players := players_set (players (state g)) playerId p2,
                                           ball := b2\<rparr>\<rparr>)
              else g\<lparr>state := (state g)\<lparr>players := players_set (players (state g)) playerId p1\<rparr>\<rparr>))"

subsection \<open>The simulation tick\<close>

definition playerUpdateData :: "Player \<Rightarrow> PlayerUpdateData" where
  "playerUpdateData player =
     \<lparr>upd_id = player_id player, upd_position = Player.position player,
      upd_velocity = Player.velocity player, upd_team = team player,
      upd_name = name player, upd_isKicking = isKicking player\<rparr>"

text \<open>The local player's step: \<open>updatePlayer\<close> on the entry of \<open>localPlayerId\<close>, when
  there is one, and the \<open>player-update\<close> message that follows it.\<close>

definition updateLocalPlayer :: "Game \<Rightarrow> GameState \<times> NetworkMessage list" where
  "updateLocalPlayer g =
     (case players_get (players (state g)) (localPlayerId g) of
        None \<Rightarrow> (state g, [])
      | Some localPlayer \<Rightarrow>
          (let p1 = updatePlayer config localPlayer (input g)
           in ((state g)\<lparr>players := players_set (players (state g)) (localPlayerId g) p1\<rparr>,
               [PlayerUpdateMsg (playerUpdateData p1)])))"

text \<open>The player-player collisions work on \<open>Array.from(players.values())\<close>, whose
  elements are the player objects of the map: one call updates the two players at
  indices \<open>i\<close> and \<open>j\<close>.\<close>

definition collidePair :: "nat \<Rightarrow> nat \<Rightarrow> Player list \<Rightarrow> Player list" where
  "collidePair i j ps =
     (case handlePlayerCollision config (ps ! i) (ps ! j) of (p1, p2) \<Rightarrow> ps[i := p1, j := p2])"

text \<open>The two nested loops, \<open>i\<close> from 0 and \<open>j\<close> from \<open>i + 1\<close>, both below the number
  of players.\<close>

definition collideAll :: "Player list \<Rightarrow> Player list" where
  "collideAll ps =
     foldl (\<lambda>ps1 i. foldl (\<lambda>ps2 j. collidePair i j ps2) ps1 [i + 1 ..< length ps])
       ps [0 ..< length ps]"

text \<open>The host's physics of one tick, up to the goal check: the ball is integrated,
  every player is tested against it in map order, then every pair of players.\<close>

definition hostPhysics :: "GameState \<Rightarrow> GameState" where
  "hostPhysics s =
     (let b1 = updateBall config (ball s);
          b2 = foldl (\<lambda>b kp. snd (handlePlayerBallCollision config (snd kp) b)) b1 (players s);
          ps = zip (map fst (players s)) (collideAll (map snd (players s)))
      in s\<lparr>ball := b2, players := ps\<rparr>)"

definition incrementScore :: "Team \<Rightarrow> Score \<Rightarrow> Score" where
  "incrementScore scorer sc =
     (case scorer of Red \<Rightarrow> sc\<lparr>red := red sc + 1\<rparr> | Blue \<Rightarrow> sc\<lparr>blue := blue sc + 1\<rparr>)"

text \<open>The goal check of the host and what follows it in the same tick.\<close>

definition hostGoalCheck :: "GameState \<Rightarrow> GameState \<times> NetworkMessage list" where
  "hostGoalCheck s =
     (case checkGoal config (ball s) of
        Some scorer \<Rightarrow>
          (let s1 = s\<lparr>score := incrementScore scorer (score s)\<rparr>;
               s2 = (resetPositions s1)\<lparr>countdown := 120\<rparr>
           in (s2, [ScoreUpdateMsg (score s1), BallUpdateMsg (ball s2)]))
      | None \<Rightarrow> (s, [BallUpdateMsg (ball s)]))"

text \<open>\<open>Game.update\<close>: the new game and the messages handed to \<open>network.send\<close>, in
  order.\<close>

definition update :: "Game \<Rightarrow> Game \<times> NetworkMessage list" where
  "update g =
     (if countdown (state g) > 0 then
        (let s1 = (state g)\<lparr>countdown := countdown (state g) - 1\<rparr>
         in (g\<lparr>state := s1\<rparr>, if isHosting g then [GameStateMsg s1] else []))
      else
        (case updateLocalPlayer g of
           (s1, out1) \<Rightarrow>
             if isHosting g then
               (case hostGoalCheck (hostPhysics s1) of
                  (s2, out2) \<Rightarrow> (g\<lparr>state := s2\<rparr>, out1 @ out2))
             else (g\<lparr>state := s1\<rparr>, out1)))"

text \<open>A run of ticks; between two ticks the key handlers may have changed \<open>input\<close>, so
  each tick comes with the input it reads.\<close>

definition tick :: "Game \<Rightarrow> InputState \<Rightarrow> Game" where
  "tick g inp = fst (update (g\<lparr>input := inp\<rparr>))"

definition ticks :: "Game \<Rightarrow> InputState list \<Rightarrow> Game" where
  "ticks g inps = foldl tick g inps"

section \<open>Room identifiers (network.ts, main.ts)\<close>

text \<open>Strings are modelled as lists of 8-bit characters; \<open>toUpperCase\<close> is the ASCII
  one and \<open>trim\<close> removes the ASCII white space (tab, line feed, vertical tab, form
  feed, carriage return, space).\<close>

definition toUpperCase_char :: "char \<Rightarrow> char" where
  "toUpperCase_char ch =
     (let n = (of_char ch :: nat) in if 97 \<le> n \<and> n \<le> 122 then char_of (n - 32) else ch)"

definition toUpperCase :: "string \<Rightarrow> string" where
  "toUpperCase s = map toUpperCase_char s"

definition isWhiteSpace :: "char \<Rightarrow> bool" where
  "isWhiteSpace ch = (let n = (of_char ch :: nat) in (9 \<le> n \<and> n \<le> 13) \<or> n = 32)"

definition trim :: "string \<Rightarrow> string" where
  "trim s = rev (dropWhile isWhiteSpace (rev (dropWhile isWhiteSpace s)))"

fun startsWith :: "string \<Rightarrow> string \<Rightarrow> bool" where
  "startsWith s [] = True"
| "startsWith [] (p # ps) = False"
| "startsWith (ch # s) (p # ps) = (ch = p \<and> startsWith s ps)"

text \<open>\<open>String.prototype.replace\<close> with a string pattern: only the first occurrence is
  replaced. The replacement used here is the empty string, so the \<open>$\<close> patterns of a
  replacement play no part.\<close>

fun replace :: "string \<Rightarrow> string \<Rightarrow> string \<Rightarrow> string" where
  "replace [] pat rep = (if pat = [] then rep else [])"
| "replace (ch # s) pat rep =
     (if startsWith (ch # s) pat then rep @ drop (length pat) (ch # s)
      else ch # replace s pat rep)"

text \<open>The identifier \<open>Network.joinRoom\<close> passes to \<open>peer.connect\<close>.\<close>

definition normalizedRoomId :: "string \<Rightarrow> string" where
  "normalizedRoomId roomId =
     (let n1 = trim (toUpperCase roomId);
          n2 = (if \<not> startsWith n1 ''HAX-'' then ''hax-'' @ n1 else n1)
      in ''hax-'' @ replace n2 ''HAX-'' [])"

text \<open>The click handler of the join button: the text of the input field is trimmed and
  upper-cased, an empty result is rejected before any network attempt (\<open>None\<close>), and
  otherwise \<open>Game.joinRoom\<close> hands it to \<open>Network.joinRoom\<close>; the result is the
  identifier the connection is attempted to.\<close>

definition joinBtn_click :: "string \<Rightarrow> string option" where
  "joinBtn_click text =
     (let roomId = toUpperCase (trim text)
      in if roomId = [] then None else Some (normalizedRoomId roomId))"

section \<open>Notions used in the statements\<close>

text \<open>The direction \<open>kick\<close> and \<open>kickWithExtendedRange\<close> compute, and the ball velocity
  they assign.\<close>

definition kickDirection :: "Player \<Rightarrow> Ball \<Rightarrow> Vector2" where
  "kickDirection p b = normalize_vec (subtract (Ball.position b) (Player.position p))"

definition kickedVelocity :: "GameConfig \<Rightarrow> Player \<Rightarrow> Ball \<Rightarrow> Vector2" where
  "kickedVelocity c p b = add (Ball.velocity b) (multiply (kickDirection p b) (kickForce c))"

text \<open>The \<open>normal\<close> and the \<open>velocityAlongNormal\<close> of \<open>handlePlayerCollision\<close>.\<close>

definition collisionNormal :: "Player \<Rightarrow> Player \<Rightarrow> Vector2" where
  "collisionNormal p1 p2 = normalize_vec (subtract (Player.position p2) (Player.position p1))"

definition closingSpeed :: "Player \<Rightarrow> Player \<Rightarrow> real" where
  "closingSpeed p1 p2 =
     dot (subtract (Player.velocity p1) (Player.velocity p2)) (collisionNormal p1 p2)"

text \<open>A player's centre is inside the field, one radius away from every wall.\<close>

definition inField :: "GameConfig \<Rightarrow> Player \<Rightarrow> bool" where
  "inField c p =
     (playerRadius c \<le> x (Player.position p) \<and> x (Player.position p) \<le> fieldWidth c - playerRadius c \<and>
      playerRadius c \<le> y (Player.position p) \<and> y (Player.position p) \<le> fieldHeight c - playerRadius c)"

text \<open>A height strictly inside the goal mouth.\<close>

definition inGoalBand :: "GameConfig \<Rightarrow> real \<Rightarrow> bool" where
  "inGoalBand c py = (goalTop c < py \<and> py < goalBottom c)"

subsection \<open>Concrete values\<close>

definition keys :: "bool \<Rightarrow> bool \<Rightarrow> bool \<Rightarrow> bool \<Rightarrow> InputState" where
  "keys u d l r = \<lparr>up = u, down = d, left = l, right = r, kick_key = False\<rparr>"

definition playerAt :: "string \<Rightarrow> Team \<Rightarrow> real \<Rightarrow> real \<Rightarrow> real \<Rightarrow> int \<Rightarrow> Player" where
  "playerAt i t px py vx cd =
     \<lparr>player_id = i, Player.position = \<lparr>x = px, y = py\<rparr>, velocity = \<lparr>x = vx, y = 0\<rparr>,
      team = t, name = ''Player'', isKicking = False, kickCooldown = cd\<rparr>"

definition ballAt :: "real \<Rightarrow> real \<Rightarrow> real \<Rightarrow> real \<Rightarrow> Ball" where
  "ballAt px py vx vy =
     \<lparr>Ball.position = \<lparr>x = px, y = py\<rparr>, velocity = \<lparr>x = vx, y = vy\<rparr>, radius = ballRadius config\<rparr>"

text \<open>A host with one guest, both on the centre line, far from each other.\<close>

definition hostGame :: "Ball \<Rightarrow> int \<Rightarrow> Game" where
  "hostGame b cd =
     \<lparr>state = \<lparr>players = [(''hax-ABC123'', playerAt ''hax-ABC123'' Red 150 300 0 0),
                          (''guest'', playerAt ''guest'' Blue 850 300 0 5)],
               ball = b, score = \<lparr>red = 2, blue = 1\<rparr>, isPlaying = True, countdown = cd\<rparr>,
      input = keys False False False False,
      localPlayerId = ''hax-ABC123'', isHosting = True, gamePhase = Playing\<rparr>"

definition guestUpdate :: "string \<Rightarrow> PlayerUpdateData" where
  "guestUpdate i =
     \<lparr>upd_id = i, upd_position = \<lparr>x = 800, y = 310\<rparr>, upd_velocity = \<lparr>x = - 2, y = 1\<rparr>,
      upd_team = Red, upd_name = ''Guest'', upd_isKicking = True\<rparr>"

section \<open>Properties\<close>

subsection \<open>The player map\<close>

lemma players_get_set_same: "players_get (players_set ps k v) k = Some v"
  by (induction ps) auto

lemma players_get_set_other: "k' \<noteq> k \<Longrightarrow> players_get (players_set ps k v) k' = players_get ps k'"
  by (induction ps) auto

lemma players_set_keys: "players_get ps k = Some p \<Longrightarrow> map fst (players_set ps k v) = map fst ps"
  by (induction ps) (auto split: if_splits)

subsection \<open>Vectors\<close>

lemma magnitude_nonneg: "0 \<le> magnitude v"
  by (simp add: magnitude_def)

lemma magnitude_horizontal: "magnitude \<lparr>x = a, y = 0\<rparr> = \<bar>a\<bar>"
  by (simp add: magnitude_def)

lemma magnitude_vertical: "magnitude \<lparr>x = 0, y = a\<rparr> = \<bar>a\<bar>"
  by (simp add: magnitude_def)

lemma magnitude_zero_iff: "(magnitude v = 0) = (x v = 0 \<and> y v = 0)"
proof -
  have "(x v * x v + y v * y v = 0) = (x v = 0 \<and> y v = 0)"
    by (simp add: sum_squares_eq_zero_iff)
  moreover have "0 \<le> x v * x v + y v * y v" by simp
  ultimately show ?thesis by (simp add: magnitude_def)
qed

lemma magnitude_subtract_swap: "magnitude (subtract a b) = magnitude (subtract b a)"
proof -
  have "(x a - x b) * (x a - x b) + (y a - y b) * (y a - y b)
      = (x b - x a) * (x b - x a) + (y b - y a) * (y b - y a)"
    by (simp add: algebra_simps)
  then show ?thesis by (simp add: magnitude_def subtract_def)
qed

lemma distance_zero_iff: "(distance a b = 0) = (a = b)"
  by (auto simp: distance_def magnitude_zero_iff subtract_def Vector2.equality)

lemma dot_self: "dot v v = magnitude v * magnitude v"
  by (simp add: dot_def magnitude_def)

lemma dot_normalize_self:
  assumes "magnitude v \<noteq> 0"
  shows "dot (normalize_vec v) (normalize_vec v) = 1"
proof -
  let ?m = "magnitude v"
  have m2: "?m * ?m = x v * x v + y v * y v"
    by (simp add: magnitude_def)
  have "dot (normalize_vec v) (normalize_vec v) = (x v * x v + y v * y v) / (?m * ?m)"
    using assms by (simp add: normalize_vec_def dot_def Let_def add_divide_distrib)
  also have "\<dots> = (?m * ?m) / (?m * ?m)" by (simp only: m2)
  also have "\<dots> = 1" using assms by simp
  finally show ?thesis .
qed

text \<open>A vector that is not zero is normalized to length one (the first of the spec's
  testable properties; the zero vector is normalized to itself).\<close>

lemma magnitude_normalize:
  assumes "magnitude v \<noteq> 0"
  shows "magnitude (normalize_vec v) = 1"
proof -
  have "magnitude (normalize_vec v) * magnitude (normalize_vec v) = 1"
    using dot_normalize_self [OF assms] by (simp add: dot_self)
  moreover have "0 \<le> magnitude (normalize_vec v)" by (rule magnitude_nonneg)
  ultimately show ?thesis
    by (metis abs_of_nonneg real_sqrt_abs2 real_sqrt_one)
qed

lemma magnitude_multiply: "magnitude (multiply v k) = magnitude v * \<bar>k\<bar>"
proof -
  have "x v * k * (x v * k) + y v * k * (y v * k) = (x v * x v + y v * y v) * (k * k)"
    by (simp add: algebra_simps)
  then show ?thesis
    by (simp add: magnitude_def multiply_def real_sqrt_mult)
qed

lemma impulse_magnitude:
  "magnitude (subtract (add v (multiply d k)) v) = magnitude d * \<bar>k\<bar>"
proof -
  have "subtract (add v (multiply d k)) v = multiply d k"
    by (simp add: subtract_def add_def multiply_def)
  then show ?thesis by (simp add: magnitude_multiply)
qed

lemma impulse_dot:
  "dot (add v (multiply d k)) d = dot v d + k * dot d d"
  by (simp add: dot_def add_def multiply_def algebra_simps)

lemma direction_unit:
  "a \<noteq> b \<Longrightarrow> magnitude (normalize_vec (subtract b a)) = 1"
  using distance_zero_iff [of b a] by (simp add: distance_def magnitude_normalize)

lemma direction_zero:
  "normalize_vec (subtract a a) = \<lparr>x = 0, y = 0\<rparr>"
  by (simp add: normalize_vec_def magnitude_def subtract_def)

subsection \<open>kick\<close>

lemma kick_fail:
  "kickCooldown p > 0 \<or> distance (Player.position p) (Ball.position b) \<ge> playerRadius c + radius b + 25
   \<Longrightarrow> kick c p b = (False, p, b)"
  by (auto simp: kick_def Let_def)

lemma kick_success:
  "\<not> kickCooldown p > 0 \<Longrightarrow> distance (Player.position p) (Ball.position b) < playerRadius c + radius b + 25
   \<Longrightarrow> kick c p b = (True, p\<lparr>kickCooldown := 20, isKicking := True\<rparr>,
        b\<lparr>Ball.velocity := add (Ball.velocity b)
             (multiply (normalize_vec (subtract (Ball.position b) (Player.position p))) (kickForce c))\<rparr>)"
  by (simp add: kick_def Let_def add_def multiply_def)

text \<open>
  Claim C1, as the code has it. \<open>kick\<close> returns false and leaves the player and the ball
  as they were when \<open>kickCooldown > 0\<close> or the distance between the centres is at least
  \<open>playerRadius + radius + 25\<close> (\<open>radius\<close> is the ball's own field, which \<open>createBall\<close>
  sets to \<open>ballRadius\<close>). Otherwise it returns true, sets \<open>kickCooldown\<close> to 20 and
  \<open>isKicking\<close> to true, and adds \<open>kickForce\<close> times the normalized direction from the
  player to the ball to the ball's velocity. When the two centres differ, that direction
  has length one, so the velocity changes by a vector of length \<open>|kickForce|\<close> and its
  component along the direction grows by exactly \<open>kickForce\<close>. When the centres
  coincide, the normalized direction is the zero vector and the velocity is unchanged.
\<close>

theorem kick_effect:
  "(kickCooldown p > 0 \<or> distance (Player.position p) (Ball.position b) \<ge> playerRadius c + radius b + 25
      \<longrightarrow> kick c p b = (False, p, b))
   \<and> (\<not> (kickCooldown p > 0 \<or> distance (Player.position p) (Ball.position b) \<ge> playerRadius c + radius b + 25)
      \<longrightarrow> kick c p b = (True, p\<lparr>kickCooldown := 20, isKicking := True\<rparr>,
                          b\<lparr>Ball.velocity := kickedVelocity c p b\<rparr>)
        \<and> (Player.position p \<noteq> Ball.position b \<longrightarrow>
              magnitude (kickDirection p b) = 1
              \<and> magnitude (subtract (kickedVelocity c p b) (Ball.velocity b)) = \<bar>kickForce c\<bar>
              \<and> dot (kickedVelocity c p b) (kickDirection p b)
                  = dot (Ball.velocity b) (kickDirection p b) + kickForce c)
        \<and> (Player.position p = Ball.position b \<longrightarrow> kickedVelocity c p b = Ball.velocity b))"
proof (intro conjI impI)
  assume "kickCooldown p > 0 \<or> distance (Player.position p) (Ball.position b) \<ge> playerRadius c + radius b + 25"
  then show "kick c p b = (False, p, b)" by (rule kick_fail)
next
  assume "\<not> (kickCooldown p > 0 \<or> distance (Player.position p) (Ball.position b) \<ge> playerRadius c + radius b + 25)"
  then show "kick c p b = (True, p\<lparr>kickCooldown := 20, isKicking := True\<rparr>,
                           b\<lparr>Ball.velocity := kickedVelocity c p b\<rparr>)"
    unfolding kickedVelocity_def kickDirection_def by (intro kick_success) auto
next
  assume ne: "Player.position p \<noteq> Ball.position b"
  show unit: "magnitude (kickDirection p b) = 1"
    unfolding kickDirection_def using ne by (rule direction_unit)
  then show "magnitude (subtract (kickedVelocity c p b) (Ball.velocity b)) = \<bar>kickForce c\<bar>"
    unfolding kickedVelocity_def by (simp add: impulse_magnitude)
  have "dot (kickDirection p b) (kickDirection p b) = 1"
    using unit by (simp add: dot_self)
  then show "dot (kickedVelocity c p b) (kickDirection p b)
               = dot (Ball.velocity b) (kickDirection p b) + kickForce c"
    unfolding kickedVelocity_def by (simp add: impulse_dot)
next
  assume "Player.position p = Ball.position b"
  then have "kickDirection p b = \<lparr>x = 0, y = 0\<rparr>"
    unfolding kickDirection_def by (simp add: direction_zero)
  then show "kickedVelocity c p b = Ball.velocity b"
    unfolding kickedVelocity_def by (simp add: add_def multiply_def)
qed

text \<open>The striker 40 units to the left of the ball at the centre spot kicks it to the
  right at speed 15; on cooldown, or 100 units away, nothing happens; a striker standing
  on the centre spot itself ``kicks'' without moving the ball.\<close>

theorem kick_effect_witness:
  "kick config (playerAt ''a'' Red 460 300 0 0) createBall
     = (True, (playerAt ''a'' Red 460 300 0 0)\<lparr>kickCooldown := 20, isKicking := True\<rparr>,
        createBall\<lparr>Ball.velocity := \<lparr>x = 15, y = 0\<rparr>\<rparr>)
   \<and> magnitude (subtract (kickedVelocity config (playerAt ''a'' Red 460 300 0 0) createBall)
        (Ball.velocity createBall)) = 15
   \<and> kick config (playerAt ''a'' Red 460 300 0 3) createBall
     = (False, playerAt ''a'' Red 460 300 0 3, createBall)
   \<and> kick config (playerAt ''a'' Red 400 300 0 0) createBall
     = (False, playerAt ''a'' Red 400 300 0 0, createBall)
   \<and> kickedVelocity config (playerAt ''a'' Red 500 300 0 0) createBall = Ball.velocity createBall"
  using kick_effect [where c = config and p = "playerAt ''a'' Red 460 300 0 0" and b = createBall]
        kick_effect [where c = config and p = "playerAt ''a'' Red 460 300 0 3" and b = createBall]
        kick_effect [where c = config and p = "playerAt ''a'' Red 400 300 0 0" and b = createBall]
        kick_effect [where c = config and p = "playerAt ''a'' Red 500 300 0 0" and b = createBall]
  by (simp add: distance_def magnitude_def subtract_def add_def multiply_def normalize_vec_def
        kickedVelocity_def kickDirection_def playerAt_def createBall_def config_def)

text \<open>
  Claim C1 as stated fails. With the player's centre on the ball's centre the kick is
  in range and off cooldown and returns true, yet the ball's velocity is what it was:
  nothing of size \<open>kickForce\<close> is added. And for a ball that rolls towards the striker at
  speed 3, the kick turns the velocity round to speed 12: the magnitude of the velocity
  has not grown by \<open>kickForce = 15\<close>.
\<close>

theorem kick_counterexample:
  "\<not> kickCooldown (playerAt ''a'' Red 500 300 0 0) > 0
   \<and> distance (Player.position (playerAt ''a'' Red 500 300 0 0)) (Ball.position createBall)
        < playerRadius config + radius createBall + 25
   \<and> fst (kick config (playerAt ''a'' Red 500 300 0 0) createBall)
   \<and> Ball.velocity (snd (snd (kick config (playerAt ''a'' Red 500 300 0 0) createBall)))
        = Ball.velocity createBall
   \<and> magnitude (Ball.velocity (snd (snd (kick config (playerAt ''a'' Red 500 300 0 0) createBall))))
        \<noteq> magnitude (Ball.velocity createBall) + kickForce config
   \<and> fst (kick config (playerAt ''a'' Red 460 300 0 0) (ballAt 500 300 (- 3) 0))
   \<and> magnitude (Ball.velocity (snd (snd (kick config (playerAt ''a'' Red 460 300 0 0) (ballAt 500 300 (- 3) 0)))))
        \<noteq> magnitude (Ball.velocity (ballAt 500 300 (- 3) 0)) + kickForce config"
  by (simp add: kick_def Let_def distance_def magnitude_def subtract_def normalize_vec_def
        playerAt_def createBall_def ballAt_def config_def)

subsection \<open>Room identifiers\<close>

text \<open>An identifier that already carries the prefix, in any letter case and with
  surrounding blanks, is brought to the canonical form.\<close>

lemma normalizedRoomId_prefixed:
  "normalizedRoomId ''hax-abc123'' = ''hax-ABC123''
   \<and> normalizedRoomId ''  HAX-abc123 '' = ''hax-ABC123''
   \<and> joinBtn_click ''Hax-Abc123'' = Some ''hax-ABC123''
   \<and> joinBtn_click ''   '' = None"
  by code_simp

text \<open>
  Claim C2 says that \<open>joinRoom\<close> brings every entered room id to \<open>hax-\<close> followed by
  the upper-case suffix, with or without the prefix, so that \<open>abc123\<close> and
  \<open>hax-abc123\<close> both connect to \<open>hax-ABC123\<close>. The code does so only for an id that
  carries the prefix. For an id without it, the first step adds a lower-case \<open>hax-\<close>,
  the second step removes only an upper-case \<open>HAX-\<close>, finds none, and adds \<open>hax-\<close>
  again: \<open>abc123\<close> connects to \<open>hax-hax-ABC123\<close>, from \<open>Network.joinRoom\<close> alone and
  from the join button alike.
\<close>

theorem joinRoom_without_prefix:
  "normalizedRoomId ''abc123'' = ''hax-hax-ABC123''
   \<and> joinBtn_click ''abc123'' = Some ''hax-hax-ABC123''
   \<and> normalizedRoomId ''abc123'' \<noteq> normalizedRoomId ''hax-abc123''"
  by code_simp

subsection \<open>updatePlayer\<close>

lemma updatePlayer_position:
  "Player.position (updatePlayer c p inp) =
     \<lparr>x = max (playerRadius c) (min (fieldWidth c - playerRadius c)
            (x (Player.position p) + x (Player.velocity (updatePlayer c p inp)))),
      y = max (playerRadius c) (min (fieldHeight c - playerRadius c)
            (y (Player.position p) + y (Player.velocity (updatePlayer c p inp))))\<rparr>"
  by (simp add: updatePlayer_def Let_def)

lemma clamp_between:
  fixes lo hi v :: real
  assumes "lo \<le> hi"
  shows "lo \<le> max lo (min hi v) \<and> max lo (min hi v) \<le> hi"
  using assms by auto

lemma updatePlayer_inField:
  assumes "inField c p"
  shows "inField c (updatePlayer c p inp)"
proof -
  from assms have w: "playerRadius c \<le> fieldWidth c - playerRadius c"
    and h: "playerRadius c \<le> fieldHeight c - playerRadius c"
    by (auto simp: inField_def)
  show ?thesis
    unfolding inField_def updatePlayer_position [of c p inp]
    using clamp_between [OF w] clamp_between [OF h] by simp
qed

text \<open>
  Claim C3. A player whose position is within the bounds, \<open>playerRadius\<close> away from
  each wall, is still within them after any number of calls of \<open>updatePlayer\<close>, whatever
  the four direction keys are at each call (and whatever the velocity is).
\<close>

theorem updatePlayer_stays_inField:
  "inField c p \<Longrightarrow> inField c (foldl (updatePlayer c) p inps)"
proof (induction inps arbitrary: p)
  case Nil
  then show ?case by simp
next
  case (Cons inp inps)
  from Cons.prems have "inField c (updatePlayer c p inp)" by (rule updatePlayer_inField)
  then have "inField c (foldl (updatePlayer c) (updatePlayer c p inp) inps)" by (rule Cons.IH)
  then show ?case by simp
qed

text \<open>A player in the bottom left corner who keeps pushing down and left, then turns.\<close>

theorem updatePlayer_stays_inField_witness:
  "inField config (playerAt ''a'' Red 30 570 (- 4) 0)
   \<and> inField config (foldl (updatePlayer config) (playerAt ''a'' Red 30 570 (- 4) 0)
        [keys False True True False, keys False True True False, keys True False False True])"
  using updatePlayer_stays_inField [of config "playerAt ''a'' Red 30 570 (- 4) 0"
      "[keys False True True False, keys False True True False, keys True False False True]"]
  by (simp add: inField_def playerAt_def config_def)

subsection \<open>The simulation tick\<close>

lemma updateLocalPlayer_frame:
  "score (fst (updateLocalPlayer g)) = score (state g)"
  "ball (fst (updateLocalPlayer g)) = ball (state g)"
  "countdown (fst (updateLocalPlayer g)) = countdown (state g)"
  by (simp_all add: updateLocalPlayer_def Let_def split: option.splits)

lemma hostPhysics_frame:
  "score (hostPhysics s) = score s"
  "countdown (hostPhysics s) = countdown s"
  by (simp_all add: hostPhysics_def Let_def)

lemma hostGoalCheck_None:
  "checkGoal config (ball s) = None \<Longrightarrow> fst (hostGoalCheck s) = s"
  by (simp add: hostGoalCheck_def)

lemma hostGoalCheck_Some:
  "checkGoal config (ball s) = Some t \<Longrightarrow>
     fst (hostGoalCheck s) = (resetPositions (s\<lparr>score := incrementScore t (score s)\<rparr>))\<lparr>countdown := 120\<rparr>"
  by (simp add: hostGoalCheck_def Let_def)

lemma incrementScore_mono:
  "red sc \<le> red (incrementScore t sc) \<and> blue sc \<le> blue (incrementScore t sc)"
  by (cases t) (simp_all add: incrementScore_def)

lemma hostGoalCheck_mono:
  "red (score s) \<le> red (score (fst (hostGoalCheck s)))
   \<and> blue (score s) \<le> blue (score (fst (hostGoalCheck s)))"
proof (cases "checkGoal config (ball s)")
  case None
  then show ?thesis by (simp add: hostGoalCheck_None)
next
  case (Some t)
  then show ?thesis
    using incrementScore_mono [of "score s" t]
    by (simp add: hostGoalCheck_Some resetPositions_def)
qed

text \<open>The state after one call of \<open>update\<close>, by the three paths through it.\<close>

lemma update_state:
  "state (fst (update g)) =
     (if countdown (state g) > 0 then (state g)\<lparr>countdown := countdown (state g) - 1\<rparr>
      else if isHosting g then fst (hostGoalCheck (hostPhysics (fst (updateLocalPlayer g))))
      else fst (updateLocalPlayer g))"
  by (simp add: update_def Let_def split: prod.splits)

lemma update_score_mono:
  "red (score (state g)) \<le> red (score (state (fst (update g))))
   \<and> blue (score (state g)) \<le> blue (score (state (fst (update g))))"
  using hostGoalCheck_mono [of "hostPhysics (fst (updateLocalPlayer g))"]
  by (simp add: update_state updateLocalPlayer_frame hostPhysics_frame)

lemma tick_score_mono:
  "red (score (state g)) \<le> red (score (state (tick g inp)))
   \<and> blue (score (state g)) \<le> blue (score (state (tick g inp)))"
  using update_score_mono [of "g\<lparr>input := inp\<rparr>"] by (simp add: tick_def)

lemma ticks_Cons: "ticks g (inp # inps) = ticks (tick g inp) inps"
  by (simp add: ticks_def)

lemma ticks_score_mono:
  "red (score (state g)) \<le> red (score (state (ticks g inps)))
   \<and> blue (score (state g)) \<le> blue (score (state (ticks g inps)))"
proof (induction inps arbitrary: g)
  case Nil
  then show ?case by (simp add: ticks_def)
next
  case (Cons inp inps)
  show ?case
    unfolding ticks_Cons using tick_score_mono [of g inp] Cons.IH [of "tick g inp"] by linarith
qed

lemma tick_frozen:
  "countdown (state g) > 0 \<Longrightarrow>
     state (tick g inp) = (state g)\<lparr>countdown := countdown (state g) - 1\<rparr>"
  by (simp add: tick_def update_state)

text \<open>While the countdown lasts, ticks change nothing but the countdown.\<close>

lemma ticks_frozen:
  "int (length inps) \<le> countdown (state g) \<Longrightarrow>
     state (ticks g inps) = (state g)\<lparr>countdown := countdown (state g) - int (length inps)\<rparr>"
proof (induction inps arbitrary: g)
  case Nil
  then show ?case by (simp add: ticks_def)
next
  case (Cons inp inps)
  from Cons.prems have pos: "countdown (state g) > 0" by simp
  then have st: "state (tick g inp) = (state g)\<lparr>countdown := countdown (state g) - 1\<rparr>"
    by (rule tick_frozen)
  with Cons.prems have "int (length inps) \<le> countdown (state (tick g inp))" by simp
  then have "state (ticks (tick g inp) inps)
      = (state (tick g inp))\<lparr>countdown := countdown (state (tick g inp)) - int (length inps)\<rparr>"
    by (rule Cons.IH)
  then show ?case unfolding ticks_Cons by (simp add: st algebra_simps)
qed

lemma checkGoal_createBall: "checkGoal config createBall = None"
  by (simp add: checkGoal_def createBall_def config_def goalTop_def goalBottom_def)

text \<open>
  Claim C4. Over any run of ticks, whatever the keys are at each of them, neither score
  decreases. In a tick of the host outside the countdown in which \<open>checkGoal\<close> reports
  a scorer for the ball as the physics of that tick left it, that team's score grows by
  one and the other score stays; the ball is the one \<open>createBall\<close> makes, at the centre
  of the field with zero velocity; the countdown is 120. On that ball \<open>checkGoal\<close>
  reports nothing, and over the next 120 ticks the score and the ball stay as they are,
  so the goal is not counted again. A host tick in which \<open>checkGoal\<close> reports nothing
  leaves the score as it was.
\<close>

theorem score_monotone_one_goal:
  "red (score (state g)) \<le> red (score (state (ticks g inps)))
   \<and> blue (score (state g)) \<le> blue (score (state (ticks g inps)))
   \<and> (\<not> countdown (state g) > 0 \<and> isHosting g
        \<and> checkGoal config (ball (hostPhysics (fst (updateLocalPlayer g)))) = Some t
      \<longrightarrow> red (score (state (fst (update g)))) = red (score (state g)) + (if t = Red then 1 else 0)
        \<and> blue (score (state (fst (update g)))) = blue (score (state g)) + (if t = Blue then 1 else 0)
        \<and> ball (state (fst (update g))) = createBall
        \<and> Ball.position createBall = \<lparr>x = fieldWidth config / 2, y = fieldHeight config / 2\<rparr>
        \<and> Ball.velocity createBall = \<lparr>x = 0, y = 0\<rparr>
        \<and> countdown (state (fst (update g))) = 120
        \<and> checkGoal config (ball (state (fst (update g)))) = None
        \<and> (length later \<le> 120 \<longrightarrow>
              score (state (ticks (fst (update g)) later)) = score (state (fst (update g)))
              \<and> ball (state (ticks (fst (update g)) later)) = createBall))
   \<and> (\<not> countdown (state g) > 0 \<and> isHosting g
        \<and> checkGoal config (ball (hostPhysics (fst (updateLocalPlayer g)))) = None
      \<longrightarrow> score (state (fst (update g))) = score (state g))"
proof (intro conjI impI)
  show "red (score (state g)) \<le> red (score (state (ticks g inps)))"
    using ticks_score_mono [of g inps] by simp
  show "blue (score (state g)) \<le> blue (score (state (ticks g inps)))"
    using ticks_score_mono [of g inps] by simp
next
  assume a: "\<not> countdown (state g) > 0 \<and> isHosting g
        \<and> checkGoal config (ball (hostPhysics (fst (updateLocalPlayer g)))) = Some t"
  let ?s = "hostPhysics (fst (updateLocalPlayer g))"
  have st: "state (fst (update g))
      = (resetPositions (?s\<lparr>score := incrementScore t (score ?s)\<rparr>))\<lparr>countdown := 120\<rparr>"
    using a by (simp add: update_state hostGoalCheck_Some)
  have sc: "score ?s = score (state g)"
    by (simp add: hostPhysics_frame updateLocalPlayer_frame)
  show "red (score (state (fst (update g)))) = red (score (state g)) + (if t = Red then 1 else 0)"
    by (cases t) (simp_all add: st sc resetPositions_def incrementScore_def)
  show "blue (score (state (fst (update g)))) = blue (score (state g)) + (if t = Blue then 1 else 0)"
    by (cases t) (simp_all add: st sc resetPositions_def incrementScore_def)
  show b: "ball (state (fst (update g))) = createBall"
    by (simp add: st resetPositions_def)
  show "Ball.position createBall = \<lparr>x = fieldWidth config / 2, y = fieldHeight config / 2\<rparr>"
    by (simp add: createBall_def)
  show "Ball.velocity createBall = \<lparr>x = 0, y = 0\<rparr>"
    by (simp add: createBall_def)
  show cd: "countdown (state (fst (update g))) = 120"
    by (simp add: st)
  show "checkGoal config (ball (state (fst (update g)))) = None"
    by (simp add: b checkGoal_createBall)
  {
    assume "length later \<le> 120"
    then have "int (length later) \<le> countdown (state (fst (update g)))" by (simp add: cd)
    then have fr: "state (ticks (fst (update g)) later)
        = (state (fst (update g)))\<lparr>countdown := countdown (state (fst (update g))) - int (length later)\<rparr>"
      by (rule ticks_frozen)
    show "score (state (ticks (fst (update g)) later)) = score (state (fst (update g)))"
      by (simp add: fr)
    show "ball (state (ticks (fst (update g)) later)) = createBall"
      by (simp add: fr b)
  }
next
  assume "\<not> countdown (state g) > 0 \<and> isHosting g
        \<and> checkGoal config (ball (hostPhysics (fst (updateLocalPlayer g)))) = None"
  then show "score (state (fst (update g))) = score (state g)"
    by (simp add: update_state hostGoalCheck_None hostPhysics_frame updateLocalPlayer_frame)
qed

text \<open>The ball rolls into the left goal mouth: at 2 : 1, blue scores.\<close>

lemma goal_tick_ball:
  "ball (hostPhysics (fst (updateLocalPlayer (hostGame (ballAt 10 300 (- 10) 0) 0))))
     = ballAt 0 300 (- 9.85) 0"
  by (simp add: hostPhysics_def updateLocalPlayer_def hostGame_def ballAt_def playerAt_def keys_def
        updatePlayer_def acceleration_def normalize_vec_def
        updateBall_def integrateBall_def leftWall_def rightWall_def topWall_def bottomWall_def
        handlePlayerBallCollision_def distance_def magnitude_horizontal subtract_def
        goalTop_def goalBottom_def config_def Let_def)

lemma goal_tick_scorer:
  "checkGoal config (ball (hostPhysics (fst (updateLocalPlayer (hostGame (ballAt 10 300 (- 10) 0) 0)))))
     = Some Blue"
  unfolding goal_tick_ball
  by (simp add: checkGoal_def ballAt_def goalTop_def goalBottom_def config_def)

theorem score_monotone_one_goal_witness:
  "red (score (state (fst (update (hostGame (ballAt 10 300 (- 10) 0) 0))))) = 2
   \<and> blue (score (state (fst (update (hostGame (ballAt 10 300 (- 10) 0) 0))))) = 2
   \<and> ball (state (fst (update (hostGame (ballAt 10 300 (- 10) 0) 0)))) = createBall
   \<and> countdown (state (fst (update (hostGame (ballAt 10 300 (- 10) 0) 0)))) = 120
   \<and> score (state (ticks (fst (update (hostGame (ballAt 10 300 (- 10) 0) 0)))
        [keys True False False False, keys False False False True]))
      = score (state (fst (update (hostGame (ballAt 10 300 (- 10) 0) 0))))"
  using score_monotone_one_goal [where g = "hostGame (ballAt 10 300 (- 10) 0) 0" and t = Blue
          and inps = "[]" and later = "[keys True False False False, keys False False False True]"]
        goal_tick_scorer
  by (simp add: hostGame_def)

text \<open>
  Claim C5. A tick with \<open>countdown > 0\<close> takes one off the countdown and does nothing
  else to the game: the players (their positions, velocities and cooldowns with them),
  the ball and the score are as before. The host hands the whole state, as it is after
  the decrement, to the network in one \<open>game-state\<close> message; a guest sends nothing.
\<close>

theorem update_countdown:
  "countdown (state g) > 0 \<Longrightarrow>
     update g = (g\<lparr>state := (state g)\<lparr>countdown := countdown (state g) - 1\<rparr>\<rparr>,
                 if isHosting g
                 then [GameStateMsg ((state g)\<lparr>countdown := countdown (state g) - 1\<rparr>)] else [])
     \<and> countdown (state (fst (update g))) = countdown (state g) - 1
     \<and> players (state (fst (update g))) = players (state g)
     \<and> ball (state (fst (update g))) = ball (state g)
     \<and> score (state (fst (update g))) = score (state g)"
  by (simp add: update_def Let_def)

theorem update_countdown_witness:
  "countdown (state (hostGame (ballAt 10 300 (- 10) 0) 180)) > 0
   \<and> countdown (state (fst (update (hostGame (ballAt 10 300 (- 10) 0) 180)))) = 179
   \<and> ball (state (fst (update (hostGame (ballAt 10 300 (- 10) 0) 180)))) = ballAt 10 300 (- 10) 0
   \<and> snd (update (hostGame (ballAt 10 300 (- 10) 0) 180))
      = [GameStateMsg ((state (hostGame (ballAt 10 300 (- 10) 0) 180))\<lparr>countdown := 179\<rparr>)]"
  using update_countdown [of "hostGame (ballAt 10 300 (- 10) 0) 180"]
  by (simp add: hostGame_def)

subsection \<open>checkGoal\<close>

text \<open>
  Claim C6. \<open>checkGoal\<close> returns a team exactly when the edge of the ball is over the
  left boundary (\<open>x - radius < 0\<close>) or over the right one (\<open>x + radius > fieldWidth\<close>)
  while \<open>y\<close> is strictly between \<open>goalTop\<close> and \<open>goalBottom\<close>; the left test gives
  blue, the right test gives red (the left test is made first), and every other ball
  gives none. The function reads the ball and assigns nothing, so it is a function of
  the ball alone and a second call on the same ball returns the same result.
\<close>

theorem checkGoal_iff:
  "((\<exists>t. checkGoal c b = Some t) =
      ((x (Ball.position b) - radius b < 0 \<or> x (Ball.position b) + radius b > fieldWidth c)
        \<and> goalTop c < y (Ball.position b) \<and> y (Ball.position b) < goalBottom c))
   \<and> ((checkGoal c b = Some Blue) =
      (x (Ball.position b) - radius b < 0
        \<and> goalTop c < y (Ball.position b) \<and> y (Ball.position b) < goalBottom c))
   \<and> ((checkGoal c b = Some Red) =
      (\<not> x (Ball.position b) - radius b < 0 \<and> x (Ball.position b) + radius b > fieldWidth c
        \<and> goalTop c < y (Ball.position b) \<and> y (Ball.position b) < goalBottom c))
   \<and> ((checkGoal c b = None) =
      (\<not> ((x (Ball.position b) - radius b < 0 \<or> x (Ball.position b) + radius b > fieldWidth c)
        \<and> goalTop c < y (Ball.position b) \<and> y (Ball.position b) < goalBottom c)))"
  unfolding checkGoal_def by auto

text \<open>A ball over the left line in the goal mouth, one over the right line, one over
  the left line beside the goal, and one in play.\<close>

theorem checkGoal_iff_witness:
  "checkGoal config (ballAt 10 300 0 0) = Some Blue
   \<and> checkGoal config (ballAt 990 300 0 0) = Some Red
   \<and> checkGoal config (ballAt 10 100 0 0) = None
   \<and> checkGoal config (ballAt 500 300 0 0) = None"
  using checkGoal_iff [of config "ballAt 10 300 0 0"] checkGoal_iff [of config "ballAt 990 300 0 0"]
        checkGoal_iff [of config "ballAt 10 100 0 0"] checkGoal_iff [of config "ballAt 500 300 0 0"]
  by (simp add: ballAt_def goalTop_def goalBottom_def config_def)

subsection \<open>updateBall\<close>

lemma topWall_x:
  "x (Ball.position (topWall c b)) = x (Ball.position b)"
  "x (Ball.velocity (topWall c b)) = x (Ball.velocity b)"
  by (simp_all add: topWall_def)

lemma bottomWall_x:
  "x (Ball.position (bottomWall c b)) = x (Ball.position b)"
  "x (Ball.velocity (bottomWall c b)) = x (Ball.velocity b)"
  by (simp_all add: bottomWall_def)

lemma leftWall_y:
  "y (Ball.position (leftWall c b)) = y (Ball.position b)"
  "y (Ball.velocity (leftWall c b)) = y (Ball.velocity b)"
  "radius (leftWall c b) = radius b"
  by (simp_all add: leftWall_def)

lemma rightWall_y:
  "y (Ball.position (rightWall c b)) = y (Ball.position b)"
  "y (Ball.velocity (rightWall c b)) = y (Ball.velocity b)"
  "radius (rightWall c b) = radius b"
  by (simp_all add: rightWall_def)

lemma updateBall_x:
  "x (Ball.position (updateBall c b)) = x (Ball.position (rightWall c (leftWall c (integrateBall b))))"
  "x (Ball.velocity (updateBall c b)) = x (Ball.velocity (rightWall c (leftWall c (integrateBall b))))"
  by (simp_all add: updateBall_def topWall_x bottomWall_x)

text \<open>The side walls leave \<open>y\<close> and the radius alone, so the top and bottom tests see
  the integrated ball.\<close>

lemma updateBall_y:
  "y (Ball.position (updateBall c b)) = y (Ball.position (bottomWall c (topWall c (integrateBall b))))"
  "y (Ball.velocity (updateBall c b)) = y (Ball.velocity (bottomWall c (topWall c (integrateBall b))))"
  by (simp_all add: updateBall_def topWall_def bottomWall_def leftWall_y rightWall_y)

lemma side_in_band:
  "inGoalBand c (y (Ball.position b)) \<Longrightarrow> rightWall c (leftWall c b) = b"
  by (simp add: inGoalBand_def leftWall_def rightWall_def)

lemma side_left:
  assumes "\<not> inGoalBand c (y (Ball.position b))" "x (Ball.position b) - radius b < 0"
    "2 * radius b \<le> fieldWidth c"
  shows "x (Ball.position (rightWall c (leftWall c b))) = radius b"
    and "x (Ball.velocity (rightWall c (leftWall c b))) = x (Ball.velocity b) * (- 0.8)"
  using assms by (auto simp: inGoalBand_def leftWall_def rightWall_def)

lemma side_right:
  assumes "\<not> inGoalBand c (y (Ball.position b))" "x (Ball.position b) + radius b > fieldWidth c"
    "2 * radius b \<le> fieldWidth c"
  shows "x (Ball.position (rightWall c (leftWall c b))) = fieldWidth c - radius b"
    and "x (Ball.velocity (rightWall c (leftWall c b))) = x (Ball.velocity b) * (- 0.8)"
  using assms by (auto simp: inGoalBand_def leftWall_def rightWall_def)

lemma vertical_top:
  assumes "y (Ball.position b) - radius b < 0" "2 * radius b \<le> fieldHeight c"
  shows "y (Ball.position (bottomWall c (topWall c b))) = radius b"
    and "y (Ball.velocity (bottomWall c (topWall c b))) = y (Ball.velocity b) * (- 0.8)"
  using assms by (simp_all add: topWall_def bottomWall_def)

lemma vertical_bottom:
  assumes "y (Ball.position b) + radius b > fieldHeight c" "2 * radius b \<le> fieldHeight c"
  shows "y (Ball.position (bottomWall c (topWall c b))) = fieldHeight c - radius b"
    and "y (Ball.velocity (bottomWall c (topWall c b))) = y (Ball.velocity b) * (- 0.8)"
  using assms by (simp_all add: topWall_def bottomWall_def)

lemma integrateBall_radius: "radius (integrateBall b) = radius b"
  by (simp add: integrateBall_def Let_def)

text \<open>
  Claim C7. \<open>integrateBall b\<close> is the ball after the position is integrated and after
  the friction and the slow-speed stop have been applied to its velocity; the wall tests
  read its position. If that position is over the left or the right boundary and its
  \<open>y\<close> is strictly inside the goal band, \<open>updateBall\<close> leaves \<open>x\<close> and the \<open>x\<close>
  velocity as they are; when moreover the goal band keeps one radius away from the top
  and the bottom wall, as it does in the game, \<open>updateBall\<close> does nothing at all after
  the integration. If the \<open>y\<close> is outside the band, \<open>x\<close> is set to the wall
  (\<open>radius\<close> on the left, \<open>fieldWidth - radius\<close> on the right) and the \<open>x\<close> velocity is
  multiplied by \<open>-0.8\<close>. A ball over the top or the bottom boundary is set to that wall
  and its \<open>y\<close> velocity is multiplied by \<open>-0.8\<close>, in the goal band or not. The
  reflections are stated for a ball that fits between opposite walls
  (\<open>2 * radius \<le> fieldWidth\<close>, \<open>2 * radius \<le> fieldHeight\<close>), as the ball of the game
  does; a wider ball put to one wall is over the opposite one at once.
\<close>

theorem updateBall_walls:
  "((x (Ball.position (integrateBall b)) - radius b < 0
        \<or> x (Ball.position (integrateBall b)) + radius b > fieldWidth c)
      \<and> inGoalBand c (y (Ball.position (integrateBall b)))
      \<longrightarrow> x (Ball.position (updateBall c b)) = x (Ball.position (integrateBall b))
        \<and> x (Ball.velocity (updateBall c b)) = x (Ball.velocity (integrateBall b))
        \<and> (radius b \<le> goalTop c \<and> goalBottom c \<le> fieldHeight c - radius b
            \<longrightarrow> updateBall c b = integrateBall b))
   \<and> (2 * radius b \<le> fieldWidth c
      \<longrightarrow> (x (Ball.position (integrateBall b)) - radius b < 0
            \<and> \<not> inGoalBand c (y (Ball.position (integrateBall b)))
          \<longrightarrow> x (Ball.position (updateBall c b)) = radius b
            \<and> x (Ball.velocity (updateBall c b)) = x (Ball.velocity (integrateBall b)) * (- 0.8))
        \<and> (x (Ball.position (integrateBall b)) + radius b > fieldWidth c
            \<and> \<not> inGoalBand c (y (Ball.position (integrateBall b)))
          \<longrightarrow> x (Ball.position (updateBall c b)) = fieldWidth c - radius b
            \<and> x (Ball.velocity (updateBall c b)) = x (Ball.velocity (integrateBall b)) * (- 0.8)))
   \<and> (2 * radius b \<le> fieldHeight c
      \<longrightarrow> (y (Ball.position (integrateBall b)) - radius b < 0
          \<longrightarrow> y (Ball.position (updateBall c b)) = radius b
            \<and> y (Ball.velocity (updateBall c b)) = y (Ball.velocity (integrateBall b)) * (- 0.8))
        \<and> (y (Ball.position (integrateBall b)) + radius b > fieldHeight c
          \<longrightarrow> y (Ball.position (updateBall c b)) = fieldHeight c - radius b
            \<and> y (Ball.velocity (updateBall c b)) = y (Ball.velocity (integrateBall b)) * (- 0.8)))"
proof -
  let ?b1 = "integrateBall b"
  have r: "radius ?b1 = radius b" by (rule integrateBall_radius)
  show ?thesis
  proof (intro conjI impI)
    assume "(x (Ball.position ?b1) - radius b < 0 \<or> x (Ball.position ?b1) + radius b > fieldWidth c)
      \<and> inGoalBand c (y (Ball.position ?b1))"
    then have "rightWall c (leftWall c ?b1) = ?b1" by (simp add: side_in_band)
    then show "x (Ball.position (updateBall c b)) = x (Ball.position ?b1)"
      and "x (Ball.velocity (updateBall c b)) = x (Ball.velocity ?b1)"
      by (simp_all add: updateBall_x)
  next
    assume band: "(x (Ball.position ?b1) - radius b < 0 \<or> x (Ball.position ?b1) + radius b > fieldWidth c)
      \<and> inGoalBand c (y (Ball.position ?b1))"
      and away: "radius b \<le> goalTop c \<and> goalBottom c \<le> fieldHeight c - radius b"
    from band have side: "rightWall c (leftWall c ?b1) = ?b1" by (simp add: side_in_band)
    from band away have "\<not> y (Ball.position ?b1) - radius ?b1 < 0"
      and "\<not> y (Ball.position ?b1) + radius ?b1 > fieldHeight c"
      by (simp_all add: inGoalBand_def r)
    then have "bottomWall c (topWall c ?b1) = ?b1"
      by (simp add: topWall_def bottomWall_def)
    then show "updateBall c b = ?b1"
      by (simp add: updateBall_def side)
  next
    assume fw: "2 * radius b \<le> fieldWidth c"
      and a: "x (Ball.position ?b1) - radius b < 0 \<and> \<not> inGoalBand c (y (Ball.position ?b1))"
    from a show "x (Ball.position (updateBall c b)) = radius b"
      using side_left(1) [of c ?b1] fw by (simp add: updateBall_x r)
    from a show "x (Ball.velocity (updateBall c b)) = x (Ball.velocity ?b1) * (- 0.8)"
      using side_left(2) [of c ?b1] fw by (simp add: updateBall_x r)
  next
    assume fw: "2 * radius b \<le> fieldWidth c"
      and a: "x (Ball.position ?b1) + radius b > fieldWidth c \<and> \<not> inGoalBand c (y (Ball.position ?b1))"
    from a show "x (Ball.position (updateBall c b)) = fieldWidth c - radius b"
      using side_right(1) [of c ?b1] fw by (simp add: updateBall_x r)
    from a show "x (Ball.velocity (updateBall c b)) = x (Ball.velocity ?b1) * (- 0.8)"
      using side_right(2) [of c ?b1] fw by (simp add: updateBall_x r)
  next
    assume fh: "2 * radius b \<le> fieldHeight c"
      and a: "y (Ball.position ?b1) - radius b < 0"
    from a show "y (Ball.position (updateBall c b)) = radius b"
      using vertical_top(1) [of ?b1 c] fh by (simp add: updateBall_y r)
    from a show "y (Ball.velocity (updateBall c b)) = y (Ball.velocity ?b1) * (- 0.8)"
      using vertical_top(2) [of ?b1 c] fh by (simp add: updateBall_y r)
  next
    assume fh: "2 * radius b \<le> fieldHeight c"
      and a: "y (Ball.position ?b1) + radius b > fieldHeight c"
    from a show "y (Ball.position (updateBall c b)) = fieldHeight c - radius b"
      using vertical_bottom(1) [of c ?b1] fh by (simp add: updateBall_y r)
    from a show "y (Ball.velocity (updateBall c b)) = y (Ball.velocity ?b1) * (- 0.8)"
      using vertical_bottom(2) [of c ?b1] fh by (simp add: updateBall_y r)
  qed
qed

text \<open>A ball rolling left at speed 10 from \<open>x = 10\<close>: in the goal mouth it goes on to
  \<open>x = 0\<close>; beside the goal it is put to \<open>x = 15\<close> and sent back at \<open>7.88\<close>. A ball
  falling onto the bottom wall and one rising onto the top wall are sent back.\<close>

lemma integrateBall_examples:
  "integrateBall (ballAt 10 300 (- 10) 0) = ballAt 0 300 (- 9.85) 0"
  "integrateBall (ballAt 10 100 (- 10) 0) = ballAt 0 100 (- 9.85) 0"
  "integrateBall (ballAt 995 100 10 0) = ballAt 1005 100 9.85 0"
  "integrateBall (ballAt 500 590 0 10) = ballAt 500 600 0 9.85"
  "integrateBall (ballAt 500 10 0 (- 10)) = ballAt 500 0 0 (- 9.85)"
  by (simp_all add: integrateBall_def ballAt_def magnitude_horizontal magnitude_vertical Let_def)

theorem updateBall_walls_witness:
  "updateBall config (ballAt 10 300 (- 10) 0) = ballAt 0 300 (- 9.85) 0
   \<and> x (Ball.position (updateBall config (ballAt 10 300 (- 10) 0))) = 0
   \<and> x (Ball.velocity (updateBall config (ballAt 10 300 (- 10) 0))) = - 9.85
   \<and> x (Ball.position (updateBall config (ballAt 10 100 (- 10) 0))) = 15
   \<and> x (Ball.velocity (updateBall config (ballAt 10 100 (- 10) 0))) = 7.88
   \<and> x (Ball.position (updateBall config (ballAt 995 100 10 0))) = 985
   \<and> x (Ball.velocity (updateBall config (ballAt 995 100 10 0))) = - 7.88
   \<and> y (Ball.position (updateBall config (ballAt 500 590 0 10))) = 585
   \<and> y (Ball.velocity (updateBall config (ballAt 500 590 0 10))) = - 7.88
   \<and> y (Ball.position (updateBall config (ballAt 500 10 0 (- 10)))) = 15
   \<and> y (Ball.velocity (updateBall config (ballAt 500 10 0 (- 10)))) = 7.88"
  using updateBall_walls [of "ballAt 10 300 (- 10) 0" config]
        updateBall_walls [of "ballAt 10 100 (- 10) 0" config]
        updateBall_walls [of "ballAt 995 100 10 0" config]
        updateBall_walls [of "ballAt 500 590 0 10" config]
        updateBall_walls [of "ballAt 500 10 0 (- 10)" config]
  unfolding integrateBall_examples
  by (simp add: ballAt_def inGoalBand_def goalTop_def goalBottom_def config_def)

subsection \<open>kickWithExtendedRange\<close>

text \<open>
  Claim C8, as the code has it. \<open>kickWithExtendedRange\<close> tests no cooldown and uses the
  range \<open>playerRadius + radius + 60\<close>: within it, whatever \<open>kickCooldown\<close> is, it returns
  true, adds \<open>kickForce\<close> times the normalized direction to the ball's velocity and
  sets \<open>kickCooldown\<close> to 20; outside it, it returns false and changes nothing. At every
  distance from \<open>playerRadius + radius + 25\<close> up to, and not including,
  \<open>playerRadius + radius + 60\<close>, \<open>kick\<close> fails and \<open>kickWithExtendedRange\<close> succeeds.
  Where \<open>kick\<close> succeeds, \<open>kickWithExtendedRange\<close> succeeds too and leaves the same
  ball and the same cooldown, but it does not touch \<open>isKicking\<close>, which \<open>kick\<close> sets.
\<close>

theorem kickWithExtendedRange_effect:
  "(distance (Player.position p) (Ball.position b) < playerRadius c + radius b + 60
      \<longrightarrow> kickWithExtendedRange c p b
            = (True, p\<lparr>kickCooldown := 20\<rparr>, b\<lparr>Ball.velocity := kickedVelocity c p b\<rparr>))
   \<and> (\<not> distance (Player.position p) (Ball.position b) < playerRadius c + radius b + 60
      \<longrightarrow> kickWithExtendedRange c p b = (False, p, b))
   \<and> (playerRadius c + radius b + 25 \<le> distance (Player.position p) (Ball.position b)
        \<and> distance (Player.position p) (Ball.position b) < playerRadius c + radius b + 60
      \<longrightarrow> \<not> fst (kick c p b) \<and> fst (kickWithExtendedRange c p b))
   \<and> (fst (kick c p b)
      \<longrightarrow> fst (kickWithExtendedRange c p b)
        \<and> snd (snd (kick c p b)) = snd (snd (kickWithExtendedRange c p b))
        \<and> fst (snd (kick c p b)) = (fst (snd (kickWithExtendedRange c p b)))\<lparr>isKicking := True\<rparr>
        \<and> isKicking (fst (snd (kickWithExtendedRange c p b))) = isKicking p)"
  by (auto simp: kickWithExtendedRange_def kick_def Let_def kickedVelocity_def kickDirection_def
        add_def multiply_def)

lemma playerAt_distance:
  "distance (Player.position (playerAt i t px 300 vx cd)) (Ball.position createBall) = \<bar>px - 500\<bar>"
  by (simp add: distance_def subtract_def magnitude_horizontal playerAt_def createBall_def config_def)

lemma kick_range: "playerRadius config + radius createBall = 40"
  by (simp add: createBall_def config_def)

lemma playerAt_kickedVelocity:
  "px < 500 \<Longrightarrow> kickedVelocity config (playerAt i t px 300 vx cd) createBall = \<lparr>x = 15, y = 0\<rparr>"
  by (simp add: kickedVelocity_def kickDirection_def normalize_vec_def subtract_def
        magnitude_horizontal add_def multiply_def playerAt_def createBall_def config_def)

text \<open>A player 80 units from the ball, on cooldown or not, kicks it with the extended
  range and not with the plain one; 200 units away neither does.\<close>

theorem kickWithExtendedRange_effect_witness:
  "kickWithExtendedRange config (playerAt ''a'' Red 420 300 0 7) createBall
     = (True, (playerAt ''a'' Red 420 300 0 7)\<lparr>kickCooldown := 20\<rparr>,
        createBall\<lparr>Ball.velocity := \<lparr>x = 15, y = 0\<rparr>\<rparr>)
   \<and> \<not> fst (kick config (playerAt ''a'' Red 420 300 0 0) createBall)
   \<and> fst (kickWithExtendedRange config (playerAt ''a'' Red 420 300 0 0) createBall)
   \<and> kickWithExtendedRange config (playerAt ''a'' Red 300 300 0 0) createBall
     = (False, playerAt ''a'' Red 300 300 0 0, createBall)"
proof -
  have "kickWithExtendedRange config (playerAt ''a'' Red 420 300 0 7) createBall
     = (True, (playerAt ''a'' Red 420 300 0 7)\<lparr>kickCooldown := 20\<rparr>,
        createBall\<lparr>Ball.velocity := \<lparr>x = 15, y = 0\<rparr>\<rparr>)"
    using kickWithExtendedRange_effect [of "playerAt ''a'' Red 420 300 0 7" createBall config]
    by (simp add: playerAt_distance kick_range playerAt_kickedVelocity)
  moreover have "\<not> fst (kick config (playerAt ''a'' Red 420 300 0 0) createBall)
      \<and> fst (kickWithExtendedRange config (playerAt ''a'' Red 420 300 0 0) createBall)"
    using kickWithExtendedRange_effect [of "playerAt ''a'' Red 420 300 0 0" createBall config]
    by (simp add: playerAt_distance kick_range)
  moreover have "kickWithExtendedRange config (playerAt ''a'' Red 300 300 0 0) createBall
     = (False, playerAt ''a'' Red 300 300 0 0, createBall)"
    using kickWithExtendedRange_effect [of "playerAt ''a'' Red 300 300 0 0" createBall config]
    by (simp add: playerAt_distance kick_range)
  ultimately show ?thesis by blast
qed

text \<open>
  Claim C8 as stated fails: the effect is not that of \<open>kick\<close> up to the range and the
  cooldown gate. For a player off cooldown and 40 units from the ball both calls
  succeed, and after \<open>kick\<close> the player's \<open>isKicking\<close> is true while after
  \<open>kickWithExtendedRange\<close> it is false as before.
\<close>

theorem kickWithExtendedRange_counterexample:
  "\<not> kickCooldown (playerAt ''a'' Red 460 300 0 0) > 0
   \<and> distance (Player.position (playerAt ''a'' Red 460 300 0 0)) (Ball.position createBall)
        < playerRadius config + radius createBall + 25
   \<and> fst (kick config (playerAt ''a'' Red 460 300 0 0) createBall)
   \<and> fst (kickWithExtendedRange config (playerAt ''a'' Red 460 300 0 0) createBall)
   \<and> isKicking (fst (snd (kick config (playerAt ''a'' Red 460 300 0 0) createBall)))
   \<and> \<not> isKicking (fst (snd (kickWithExtendedRange config (playerAt ''a'' Red 460 300 0 0) createBall)))
   \<and> kick config (playerAt ''a'' Red 460 300 0 0) createBall
        \<noteq> kickWithExtendedRange config (playerAt ''a'' Red 460 300 0 0) createBall"
proof -
  have cd: "kickCooldown (playerAt ''a'' Red 460 300 0 0) = 0"
    and fl: "isKicking (playerAt ''a'' Red 460 300 0 0) = False"
    by (simp_all add: playerAt_def)
  have k: "kick config (playerAt ''a'' Red 460 300 0 0) createBall
      = (True, (playerAt ''a'' Red 460 300 0 0)\<lparr>kickCooldown := 20, isKicking := True\<rparr>,
         createBall\<lparr>Ball.velocity := kickedVelocity config (playerAt ''a'' Red 460 300 0 0) createBall\<rparr>)"
    using kick_success [of "playerAt ''a'' Red 460 300 0 0" createBall config]
    by (simp add: cd playerAt_distance kick_range kickedVelocity_def kickDirection_def)
  have e: "kickWithExtendedRange config (playerAt ''a'' Red 460 300 0 0) createBall
      = (True, (playerAt ''a'' Red 460 300 0 0)\<lparr>kickCooldown := 20\<rparr>,
         createBall\<lparr>Ball.velocity := kickedVelocity config (playerAt ''a'' Red 460 300 0 0) createBall\<rparr>)"
    by (simp add: kickWithExtendedRange_def Let_def playerAt_distance kick_range
          kickedVelocity_def kickDirection_def add_def multiply_def)
  have d: "distance (Player.position (playerAt ''a'' Red 460 300 0 0)) (Ball.position createBall)
        < playerRadius config + radius createBall + 25"
    by (simp add: playerAt_distance kick_range)
  have ne: "(playerAt ''a'' Red 460 300 0 0)\<lparr>kickCooldown := 20, isKicking := True\<rparr>
        \<noteq> (playerAt ''a'' Red 460 300 0 0)\<lparr>kickCooldown := 20\<rparr>"
    by (simp add: playerAt_def)
  show ?thesis
    unfolding k e using d ne by (simp add: cd fl)
qed

text \<open>The only caller, \<open>handleRemoteKick\<close>, sets the flag itself before the call.\<close>

lemma handleRemoteKick_marks:
  "players_get (players (state g)) i = Some p \<Longrightarrow>
     \<exists>q. players_get (players (state (handleRemoteKick g i))) i = Some q \<and> isKicking q"
  by (auto simp: handleRemoteKick_def kickWithExtendedRange_def Let_def players_get_set_same)

subsection \<open>handlePlayerUpdate\<close>

text \<open>
  Claim C9. A \<open>player-update\<close> message whose id is the local player's, or is the id of
  no player in the map, leaves the game as it is. Any other message overwrites the
  position, the velocity, the team and \<open>isKicking\<close> of the player with that id, who keeps
  \<open>kickCooldown\<close> (and name and id); every other player is as before, the map has the
  same keys in the same order, and the ball, the score, the countdown and everything
  else of the game are unchanged.
\<close>

theorem handlePlayerUpdate_effect:
  "(upd_id d = localPlayerId g \<or> players_get (players (state g)) (upd_id d) = None
      \<longrightarrow> handlePlayerUpdate g d = g)
   \<and> (upd_id d \<noteq> localPlayerId g \<and> players_get (players (state g)) (upd_id d) = Some p
      \<longrightarrow> players_get (players (state (handlePlayerUpdate g d))) (upd_id d)
            = Some (p\<lparr>Player.position := upd_position d, Player.velocity := upd_velocity d,
                      team := upd_team d, isKicking := upd_isKicking d\<rparr>)
        \<and> kickCooldown (the (players_get (players (state (handlePlayerUpdate g d))) (upd_id d)))
            = kickCooldown p
        \<and> (\<forall>k. k \<noteq> upd_id d \<longrightarrow>
              players_get (players (state (handlePlayerUpdate g d))) k
                = players_get (players (state g)) k)
        \<and> map fst (players (state (handlePlayerUpdate g d))) = map fst (players (state g))
        \<and> ball (state (handlePlayerUpdate g d)) = ball (state g)
        \<and> score (state (handlePlayerUpdate g d)) = score (state g)
        \<and> countdown (state (handlePlayerUpdate g d)) = countdown (state g)
        \<and> handlePlayerUpdate g d
            = g\<lparr>state := (state g)\<lparr>players := players (state (handlePlayerUpdate g d))\<rparr>\<rparr>)"
  by (auto simp: handlePlayerUpdate_def players_get_set_same players_get_set_other players_set_keys
           split: option.splits)

text \<open>The host receives an update for the guest, one for itself and one for a
  stranger.\<close>

theorem handlePlayerUpdate_effect_witness:
  "players_get (players (state (handlePlayerUpdate (hostGame createBall 0) (guestUpdate ''guest''))))
       ''guest''
     = Some \<lparr>player_id = ''guest'', Player.position = \<lparr>x = 800, y = 310\<rparr>,
             velocity = \<lparr>x = - 2, y = 1\<rparr>, team = Red, name = ''Player'', isKicking = True,
             kickCooldown = 5\<rparr>
   \<and> players_get (players (state (handlePlayerUpdate (hostGame createBall 0) (guestUpdate ''guest''))))
       ''hax-ABC123''
     = Some (playerAt ''hax-ABC123'' Red 150 300 0 0)
   \<and> ball (state (handlePlayerUpdate (hostGame createBall 0) (guestUpdate ''guest''))) = createBall
   \<and> handlePlayerUpdate (hostGame createBall 0) (guestUpdate ''hax-ABC123'') = hostGame createBall 0
   \<and> handlePlayerUpdate (hostGame createBall 0) (guestUpdate ''nobody'') = hostGame createBall 0"
  using handlePlayerUpdate_effect [where g = "hostGame createBall 0" and d = "guestUpdate ''guest''"
          and p = "playerAt ''guest'' Blue 850 300 0 5"]
        handlePlayerUpdate_effect [where g = "hostGame createBall 0" and d = "guestUpdate ''hax-ABC123''"]
        handlePlayerUpdate_effect [where g = "hostGame createBall 0" and d = "guestUpdate ''nobody''"]
  by (simp add: hostGame_def guestUpdate_def playerAt_def)

subsection \<open>handlePlayerCollision\<close>

lemma handlePlayerCollision_skip:
  "\<not> (distance (Player.position p1) (Player.position p2) < playerRadius c * 2
        \<and> distance (Player.position p1) (Player.position p2) > 0)
   \<Longrightarrow> handlePlayerCollision c p1 p2 = (p1, p2)"
  by (auto simp: handlePlayerCollision_def Let_def)

lemma handlePlayerCollision_velocity:
  "Player.velocity (fst (handlePlayerCollision c p1 p2)) =
     (if distance (Player.position p1) (Player.position p2) < playerRadius c * 2
         \<and> distance (Player.position p1) (Player.position p2) > 0
         \<and> closingSpeed p1 p2 > 0
      then \<lparr>x = x (Player.velocity p1) - closingSpeed p1 p2 * x (collisionNormal p1 p2) * 0.5,
            y = y (Player.velocity p1) - closingSpeed p1 p2 * y (collisionNormal p1 p2) * 0.5\<rparr>
      else Player.velocity p1)"
  "Player.velocity (snd (handlePlayerCollision c p1 p2)) =
     (if distance (Player.position p1) (Player.position p2) < playerRadius c * 2
         \<and> distance (Player.position p1) (Player.position p2) > 0
         \<and> closingSpeed p1 p2 > 0
      then \<lparr>x = x (Player.velocity p2) + closingSpeed p1 p2 * x (collisionNormal p1 p2) * 0.5,
            y = y (Player.velocity p2) + closingSpeed p1 p2 * y (collisionNormal p1 p2) * 0.5\<rparr>
      else Player.velocity p2)"
  by (simp_all add: handlePlayerCollision_def closingSpeed_def collisionNormal_def Let_def)

text \<open>
  Claim C10. \<open>handlePlayerCollision\<close> is defined for every pair of players. When the
  two centres coincide (distance 0) it returns both players as they were. Whenever it
  changes anything, the vector it normalizes is not the zero vector and the normal has
  length one. When the velocity of the first player relative to the second, dotted with
  the normal, is not positive, both velocities are as before; when the players overlap
  at a positive distance and it is positive, half of it along the normal is taken from
  the first player's velocity and given to the second's.
\<close>

theorem handlePlayerCollision_safe:
  "(distance (Player.position p1) (Player.position p2) = 0 \<longrightarrow> handlePlayerCollision c p1 p2 = (p1, p2))
   \<and> (Player.position p1 = Player.position p2 \<longrightarrow> handlePlayerCollision c p1 p2 = (p1, p2))
   \<and> (handlePlayerCollision c p1 p2 \<noteq> (p1, p2)
      \<longrightarrow> magnitude (subtract (Player.position p2) (Player.position p1)) \<noteq> 0
        \<and> magnitude (collisionNormal p1 p2) = 1)
   \<and> (closingSpeed p1 p2 \<le> 0
      \<longrightarrow> Player.velocity (fst (handlePlayerCollision c p1 p2)) = Player.velocity p1
        \<and> Player.velocity (snd (handlePlayerCollision c p1 p2)) = Player.velocity p2)
   \<and> (distance (Player.position p1) (Player.position p2) < playerRadius c * 2
        \<and> distance (Player.position p1) (Player.position p2) > 0
        \<and> closingSpeed p1 p2 > 0
      \<longrightarrow> Player.velocity (fst (handlePlayerCollision c p1 p2))
            = subtract (Player.velocity p1)
                (multiply (collisionNormal p1 p2) (closingSpeed p1 p2 * 0.5))
        \<and> Player.velocity (snd (handlePlayerCollision c p1 p2))
            = add (Player.velocity p2)
                (multiply (collisionNormal p1 p2) (closingSpeed p1 p2 * 0.5)))"
proof (intro conjI impI)
  assume "distance (Player.position p1) (Player.position p2) = 0"
  then show "handlePlayerCollision c p1 p2 = (p1, p2)"
    by (simp add: handlePlayerCollision_skip)
next
  assume "Player.position p1 = Player.position p2"
  then have "distance (Player.position p1) (Player.position p2) = 0"
    by (simp add: distance_zero_iff)
  then show "handlePlayerCollision c p1 p2 = (p1, p2)"
    by (simp add: handlePlayerCollision_skip)
next
  assume "handlePlayerCollision c p1 p2 \<noteq> (p1, p2)"
  then have "distance (Player.position p1) (Player.position p2) > 0"
    using handlePlayerCollision_skip [of p1 p2 c] by blast
  then show nz: "magnitude (subtract (Player.position p2) (Player.position p1)) \<noteq> 0"
    using magnitude_subtract_swap [of "Player.position p1" "Player.position p2"]
    by (simp add: distance_def)
  show "magnitude (collisionNormal p1 p2) = 1"
    unfolding collisionNormal_def using nz by (rule magnitude_normalize)
next
  assume "closingSpeed p1 p2 \<le> 0"
  then show "Player.velocity (fst (handlePlayerCollision c p1 p2)) = Player.velocity p1"
    and "Player.velocity (snd (handlePlayerCollision c p1 p2)) = Player.velocity p2"
    by (simp_all add: handlePlayerCollision_velocity)
next
  assume "distance (Player.position p1) (Player.position p2) < playerRadius c * 2
        \<and> distance (Player.position p1) (Player.position p2) > 0
        \<and> closingSpeed p1 p2 > 0"
  then show "Player.velocity (fst (handlePlayerCollision c p1 p2))
            = subtract (Player.velocity p1)
                (multiply (collisionNormal p1 p2) (closingSpeed p1 p2 * 0.5))"
    and "Player.velocity (snd (handlePlayerCollision c p1 p2))
            = add (Player.velocity p2)
                (multiply (collisionNormal p1 p2) (closingSpeed p1 p2 * 0.5))"
    by (simp_all add: handlePlayerCollision_velocity subtract_def add_def multiply_def)
qed

text \<open>Two players 40 units apart: the left one runs into the right one at speed 2 and
  each ends at speed 1; running away from it, it keeps its speed. Two players on one
  spot are left alone.\<close>

lemma closing_examples:
  "collisionNormal (playerAt ''a'' Red 460 300 2 0) (playerAt ''b'' Blue 500 300 0 0) = \<lparr>x = 1, y = 0\<rparr>"
  "closingSpeed (playerAt ''a'' Red 460 300 2 0) (playerAt ''b'' Blue 500 300 0 0) = 2"
  "closingSpeed (playerAt ''a'' Red 460 300 (- 2) 0) (playerAt ''b'' Blue 500 300 0 0) = - 2"
  "distance (Player.position (playerAt ''a'' Red 460 300 2 0))
     (Player.position (playerAt ''b'' Blue 500 300 0 0)) = 40"
  by (simp_all add: closingSpeed_def collisionNormal_def normalize_vec_def magnitude_horizontal
        distance_def subtract_def dot_def playerAt_def)

theorem handlePlayerCollision_safe_witness:
  "Player.velocity (fst (handlePlayerCollision config
       (playerAt ''a'' Red 460 300 2 0) (playerAt ''b'' Blue 500 300 0 0))) = \<lparr>x = 1, y = 0\<rparr>
   \<and> Player.velocity (snd (handlePlayerCollision config
       (playerAt ''a'' Red 460 300 2 0) (playerAt ''b'' Blue 500 300 0 0))) = \<lparr>x = 1, y = 0\<rparr>
   \<and> Player.velocity (fst (handlePlayerCollision config
       (playerAt ''a'' Red 460 300 (- 2) 0) (playerAt ''b'' Blue 500 300 0 0))) = \<lparr>x = - 2, y = 0\<rparr>
   \<and> handlePlayerCollision config (playerAt ''a'' Red 500 300 2 0) (playerAt ''b'' Blue 500 300 0 0)
       = (playerAt ''a'' Red 500 300 2 0, playerAt ''b'' Blue 500 300 0 0)"
  using handlePlayerCollision_safe [of "playerAt ''a'' Red 460 300 2 0"
          "playerAt ''b'' Blue 500 300 0 0" config]
        handlePlayerCollision_safe [of "playerAt ''a'' Red 460 300 (- 2) 0"
          "playerAt ''b'' Blue 500 300 0 0" config]
        handlePlayerCollision_safe [of "playerAt ''a'' Red 500 300 2 0"
          "playerAt ''b'' Blue 500 300 0 0" config]
  unfolding closing_examples
  by (simp add: playerAt_def config_def subtract_def add_def multiply_def)

end
